theory Spec2Isabelle
  imports Main
begin

section \<open>Data model of app.py\<close>

text \<open>
  Timestamps are \<open>datetime\<close> values, counted here in microseconds (the resolution of
  Python's \<open>datetime\<close>); \<open>isoformat\<close> followed by \<open>fromisoformat\<close> gives the same
  instant back, so an alert's timestamp is kept as that number.
\<close>

type_synonym datetime = int

text \<open>
  The JSON body of \<open>POST /api/network/analyze\<close>: a dictionary in which every key may be
  absent. \<open>other_keys\<close> are the keys the code never reads; they only matter for the
  truth value of the dictionary (\<open>if not traffic_data\<close>).
\<close>

record traffic_data =
  source_ip :: "string option"
  destination_ip :: "string option"
  connection_count :: "int option"
  failed_auth_attempts :: "int option"
  unusual_ports :: "int list option"
  other_keys :: "string list"

record analysis =
  timestamp :: datetime
  risk_score :: int
  threats_detected :: "string list"
  recommendations :: "string list"

text \<open>The dictionary handed to \<open>NetworkMonitor.generate_alert\<close>; it is read with \<open>.get\<close>.\<close>

record alert_data =
  ad_severity :: "string option"
  ad_type :: "string option"
  ad_description :: "string option"
  ad_source_ip :: "string option"
  ad_destination_ip :: "string option"

record alert =
  alert_id :: nat
  alert_timestamp :: datetime
  alert_severity :: string
  alert_type :: string
  alert_description :: string
  alert_source_ip :: string
  alert_destination_ip :: string
  alert_status :: string

text \<open>The argument of \<open>network_analytics.record_metric\<close>.\<close>

record metric =
  metric_name :: string
  metric_value :: int
  metric_unit :: string
  metric_source :: string
  metric_tag_source_ip :: string

text \<open>The argument of \<open>security_event.create_event\<close>.\<close>

record event =
  event_type :: string
  event_severity :: string
  event_source_ip :: "string option"
  event_destination_ip :: "string option"
  event_risk_score :: int
  event_metadata :: alert_data

record stats =
  total_connections :: int
  suspicious_connections :: int
  blocked_attempts :: int
  last_updated :: datetime

text \<open>
  Modelled from the spec: \<open>cache_manager.py\<close> is not among the sources. The spec (4.3, 6)
  describes the cache as a key/value store with pattern-based deletion whose failures
  (backend unreachable) degrade every read to a miss and every write to a no-op, and are
  reported as a boolean, not thrown. Entries are kept in insertion order; expiry of an
  entry by its time-to-live is not modelled.
\<close>

datatype cache_value = CachedStats stats | CachedOther string

record cache_backend =
  reachable :: bool
  entries :: "(string \<times> cache_value) list"

text \<open>
  The process state: the \<open>NetworkMonitor\<close> singleton (\<open>alerts\<close>, \<open>network_stats\<close>), the
  two database-backed collaborators, which are \<open>None\<close> when no \<open>DATABASE_URL\<close> is
  configured and otherwise stand for the records handed to them so far, the messages
  published on the pub/sub channel, and the cache.
\<close>

record system =
  alerts :: "alert list"
  network_stats :: stats
  network_analytics :: "metric list option"
  security_event :: "event list option"
  published :: "(string \<times> alert) list"
  cache :: cache_backend

text \<open>
  How a call into a collaborator that is not part of app.py ends: it stores and returns
  the record, it returns a false value without storing anything, or it raises.
\<close>

datatype outcome = Succeeds | Fails | Raises

text \<open>
  The collaborators' behaviour that app.py depends on: the indicator lookup
  \<open>cache_manager.check_threat_indicator\<close> (the truth value of its result, for the
  current indicator snapshot), and how \<open>security_event.create_event\<close> and
  \<open>cache_manager.publish_event\<close> end.
\<close>

record env =
  check_threat_indicator :: "string \<Rightarrow> bool"
  create_event_outcome :: outcome
  publish_event_outcome :: outcome

text \<open>A response \<open>jsonify({'error': msg}), code\<close>.\<close>

datatype failure = Failure nat string

section \<open>Helpers of the embedding\<close>

text \<open>\<open>d.get(key, default)\<close> on an optional field.\<close>

definition get_or :: "'a option \<Rightarrow> 'a \<Rightarrow> 'a" where
  "get_or v d = (case v of Some x \<Rightarrow> x | None \<Rightarrow> d)"

text \<open>The decimal rendering of an integer inside an f-string.\<close>

definition digit_char :: "nat \<Rightarrow> char" where
  "digit_char d = ''0123456789'' ! (d mod 10)"

fun str_nat :: "nat \<Rightarrow> string" where
  "str_nat n = (if n < 10 then [digit_char n] else str_nat (n div 10) @ [digit_char (n mod 10)])"

declare str_nat.simps [simp del]

definition str_int :: "int \<Rightarrow> string" where
  "str_int i = (if i < 0 then CHR ''-'' # str_nat (nat (- i)) else str_nat (nat i))"

text \<open>The truth value of the request dictionary: false exactly when it has no key.\<close>

definition is_empty_dict :: "traffic_data \<Rightarrow> bool" where
  "is_empty_dict td \<longleftrightarrow>
     source_ip td = None \<and> destination_ip td = None \<and> connection_count td = None \<and>
     failed_auth_attempts td = None \<and> unusual_ports td = None \<and> other_keys td = []"

section \<open>NetworkMonitor.analyze_traffic\<close>

text \<open>One triggered rule: the three updates of the \<open>analysis\<close> dictionary.\<close>

definition add_finding :: "int \<Rightarrow> string \<Rightarrow> string \<Rightarrow> analysis \<Rightarrow> analysis" where
  "add_finding w label advice a =
     a\<lparr>risk_score := risk_score a + w,
       threats_detected := threats_detected a @ [label],
       recommendations := recommendations a @ [advice]\<rparr>"

definition traffic_metric :: "traffic_data \<Rightarrow> analysis \<Rightarrow> metric" where
  "traffic_metric td a =
     \<lparr>metric_name = ''traffic_analysis_risk_score'',
      metric_value = risk_score a,
      metric_unit = ''score'',
      metric_source = ''network_monitor'',
      metric_tag_source_ip = get_or (source_ip td) ''unknown''\<rparr>"

text \<open>
  \<open>analyze_traffic\<close> at clock reading \<open>now\<close>. \<open>cache_manager\<close> is constructed
  unconditionally in app.py, so the test \<open>if cache_manager\<close> is true; the lookup is made
  only for a non-empty \<open>source_ip\<close>. The metric is recorded only when
  \<open>network_analytics\<close> is not \<open>None\<close>.
\<close>

definition analyze_traffic :: "env \<Rightarrow> datetime \<Rightarrow> traffic_data \<Rightarrow> system \<Rightarrow> analysis \<times> system" where
  "analyze_traffic e now td st =
     (let a0 = \<lparr>timestamp = now, risk_score = 0, threats_detected = [], recommendations = []\<rparr>;
          a1 = (case source_ip td of
                  None \<Rightarrow> a0
                | Some ip \<Rightarrow>
                    if ip \<noteq> [] \<and> check_threat_indicator e ip
                    then add_finding 80 (''Known threat IP: '' @ ip) ''Block IP immediately'' a0
                    else a0);
          a2 = (if get_or (connection_count td) 0 > 1000
                then add_finding 30 ''High connection volume''
                       ''Investigate source IP for DDoS activity'' a1
                else a1);
          a3 = (if get_or (failed_auth_attempts td) 0 > 10
                then add_finding 50 ''Multiple failed authentication attempts''
                       ''Implement rate limiting and block suspicious IPs'' a2
                else a2);
          a4 = (if get_or (unusual_ports td) [] \<noteq> []
                then add_finding 20 ''Unusual port activity detected''
                       ''Review firewall rules and port access'' a3
                else a3);
          st' = (case network_analytics st of
                   None \<Rightarrow> st
                 | Some ms \<Rightarrow> st\<lparr>network_analytics := Some (ms @ [traffic_metric td a4])\<rparr>)
      in (a4, st'))"

text \<open>
  The four rules as the specification words them: a rule is triggered by a field that is
  present and satisfies the rule's condition; an absent field triggers nothing.
\<close>

definition known_threat_rule :: "env \<Rightarrow> traffic_data \<Rightarrow> bool" where
  "known_threat_rule e td =
     (case source_ip td of None \<Rightarrow> False | Some ip \<Rightarrow> ip \<noteq> [] \<and> check_threat_indicator e ip)"

definition volume_rule :: "traffic_data \<Rightarrow> bool" where
  "volume_rule td = (case connection_count td of None \<Rightarrow> False | Some n \<Rightarrow> 1000 < n)"

definition auth_failure_rule :: "traffic_data \<Rightarrow> bool" where
  "auth_failure_rule td = (case failed_auth_attempts td of None \<Rightarrow> False | Some n \<Rightarrow> 10 < n)"

definition port_anomaly_rule :: "traffic_data \<Rightarrow> bool" where
  "port_anomaly_rule td = (case unusual_ports td of None \<Rightarrow> False | Some ps \<Rightarrow> ps \<noteq> [])"

text \<open>The score, labels and recommendations the rule table of the specification gives.\<close>

definition rule_score :: "env \<Rightarrow> traffic_data \<Rightarrow> int" where
  "rule_score e td =
     (if known_threat_rule e td then 80 else 0) + (if volume_rule td then 30 else 0) +
     (if auth_failure_rule td then 50 else 0) + (if port_anomaly_rule td then 20 else 0)"

definition rule_labels :: "env \<Rightarrow> traffic_data \<Rightarrow> string list" where
  "rule_labels e td =
     (if known_threat_rule e td then [''Known threat IP: '' @ get_or (source_ip td) []] else []) @
     (if volume_rule td then [''High connection volume''] else []) @
     (if auth_failure_rule td then [''Multiple failed authentication attempts''] else []) @
     (if port_anomaly_rule td then [''Unusual port activity detected''] else [])"

definition rule_recommendations :: "env \<Rightarrow> traffic_data \<Rightarrow> string list" where
  "rule_recommendations e td =
     (if known_threat_rule e td then [''Block IP immediately''] else []) @
     (if volume_rule td then [''Investigate source IP for DDoS activity''] else []) @
     (if auth_failure_rule td then [''Implement rate limiting and block suspicious IPs''] else []) @
     (if port_anomaly_rule td then [''Review firewall rules and port access''] else [])"

text \<open>The observation with no key at all, and the example of the specification.\<close>

definition empty_traffic :: traffic_data where
  "empty_traffic =
     \<lparr>source_ip = None, destination_ip = None, connection_count = None,
      failed_auth_attempts = None, unusual_ports = None, other_keys = []\<rparr>"

definition example_traffic :: traffic_data where
  "example_traffic = empty_traffic\<lparr>connection_count := Some 1500, failed_auth_attempts := Some 15\<rparr>"

section \<open>NetworkMonitor.generate_alert\<close>

datatype py_exception = CollaboratorError | AttributeError

text \<open>
  \<open>security_event.create_event\<close> and \<open>cache_manager.publish_event\<close> are not part of
  app.py: how each call ends is the parameter \<open>env\<close>. A call that succeeds adds its
  argument to the collaborator's records, one that fails returns without adding it, one
  that raises leaves the records as they were.
\<close>

definition create_event :: "env \<Rightarrow> event \<Rightarrow> event list \<Rightarrow> py_exception + event list" where
  "create_event e ev evs =
     (case create_event_outcome e of
        Succeeds \<Rightarrow> Inr (evs @ [ev])
      | Fails \<Rightarrow> Inr evs
      | Raises \<Rightarrow> Inl CollaboratorError)"

definition publish_event :: "env \<Rightarrow> string \<Rightarrow> alert \<Rightarrow> (string \<times> alert) list \<Rightarrow> py_exception + (string \<times> alert) list" where
  "publish_event e channel a msgs =
     (case publish_event_outcome e of
        Succeeds \<Rightarrow> Inr (msgs @ [(channel, a)])
      | Fails \<Rightarrow> Inr msgs
      | Raises \<Rightarrow> Inl CollaboratorError)"

definition new_alert :: "datetime \<Rightarrow> alert_data \<Rightarrow> alert list \<Rightarrow> alert" where
  "new_alert now ad as =
     \<lparr>alert_id = length as + 1,
      alert_timestamp = now,
      alert_severity = get_or (ad_severity ad) ''medium'',
      alert_type = get_or (ad_type ad) ''unknown'',
      alert_description = get_or (ad_description ad) [],
      alert_source_ip = get_or (ad_source_ip ad) [],
      alert_destination_ip = get_or (ad_destination_ip ad) [],
      alert_status = ''active''\<rparr>"

definition alert_event :: "alert_data \<Rightarrow> event" where
  "alert_event ad =
     \<lparr>event_type = get_or (ad_type ad) ''unknown'',
      event_severity = get_or (ad_severity ad) ''medium'',
      event_source_ip = ad_source_ip ad,
      event_destination_ip = ad_destination_ip ad,
      event_risk_score = (if ad_severity ad = Some ''high'' then 80 else 50),
      event_metadata = ad\<rparr>"

text \<open>
  The alert is appended to \<open>self.alerts\<close> first; an exception of a later call leaves it
  there. The result is the pair of what the call returns (or the exception it lets
  through) and the state it leaves.
\<close>

definition generate_alert :: "env \<Rightarrow> datetime \<Rightarrow> alert_data \<Rightarrow> system \<Rightarrow> (py_exception + alert) \<times> system" where
  "generate_alert e now ad st =
     (let a = new_alert now ad (alerts st);
          st1 = st\<lparr>alerts := alerts st @ [a]\<rparr>;
          stored = (case security_event st1 of
                      None \<Rightarrow> Inr st1
                    | Some evs \<Rightarrow>
                        (case create_event e (alert_event ad) evs of
                           Inl x \<Rightarrow> Inl x
                         | Inr evs' \<Rightarrow> Inr (st1\<lparr>security_event := Some evs'\<rparr>)))
      in case stored of
           Inl x \<Rightarrow> (Inl x, st1)
         | Inr st2 \<Rightarrow>
             (case publish_event e ''security_alerts'' a (published st2) of
                Inl x \<Rightarrow> (Inl x, st2)
              | Inr msgs \<Rightarrow> (Inr a, st2\<lparr>published := msgs\<rparr>)))"

section \<open>The endpoint POST /api/network/analyze\<close>

definition traffic_alert_data :: "traffic_data \<Rightarrow> analysis \<Rightarrow> alert_data" where
  "traffic_alert_data td a =
     \<lparr>ad_severity = Some (if risk_score a > 80 then ''high'' else ''medium''),
      ad_type = Some ''traffic_analysis'',
      ad_description = Some (''High risk traffic detected (score: '' @ str_int (risk_score a) @ '')''),
      ad_source_ip = Some (get_or (source_ip td) ''unknown''),
      ad_destination_ip = Some (get_or (destination_ip td) ''unknown'')\<rparr>"

text \<open>
  \<open>body\<close> is what \<open>request.get_json()\<close> returns: \<open>None\<close> or the dictionary. \<open>t1\<close> and
  \<open>t2\<close> are the clock readings of \<open>analyze_traffic\<close> and of \<open>generate_alert\<close>. Every
  exception inside the \<open>try\<close> block becomes the response 500.
\<close>

definition analyze_network_traffic :: "env \<Rightarrow> datetime \<Rightarrow> datetime \<Rightarrow> traffic_data option \<Rightarrow> system \<Rightarrow> (failure + analysis) \<times> system" where
  "analyze_network_traffic e t1 t2 body st =
     (case body of
        None \<Rightarrow> (Inl (Failure 400 ''No traffic data provided''), st)
      | Some td \<Rightarrow>
          if is_empty_dict td then (Inl (Failure 400 ''No traffic data provided''), st)
          else
            (case analyze_traffic e t1 td st of
               (a, st1) \<Rightarrow>
                 if risk_score a > 50 then
                   (case generate_alert e t2 (traffic_alert_data td a) st1 of
                      (Inl x, st2) \<Rightarrow> (Inl (Failure 500 ''Internal server error''), st2)
                    | (Inr al, st2) \<Rightarrow> (Inr a, st2))
                 else (Inr a, st1)))"

section \<open>The endpoints GET /api/alerts and PUT /api/alerts/<id>\<close>

record alert_listing =
  listed :: "alert list"
  total :: nat
  active :: nat

definition is_active :: "alert \<Rightarrow> bool" where
  "is_active a \<longleftrightarrow> alert_status a = ''active''"

text \<open>\<open>status_arg\<close> is the query parameter \<open>status\<close>, \<open>None\<close> when it is not given.\<close>

definition get_alerts :: "string option \<Rightarrow> system \<Rightarrow> alert_listing" where
  "get_alerts status_arg st =
     (let status_filter = get_or status_arg ''all'';
          shown = (if status_filter = ''active'' then filter is_active (alerts st) else alerts st)
      in \<lparr>listed = shown, total = length shown, active = length (filter is_active (alerts st))\<rparr>)"

text \<open>
  The \<open>for\<close> loop of \<open>update_alert\<close>: the first alert with the given id gets the new
  status and is returned, with the list as the assignment leaves it; \<open>None\<close> when the
  loop ends without a match.
\<close>

fun update_loop :: "nat \<Rightarrow> string \<Rightarrow> alert list \<Rightarrow> (alert \<times> alert list) option" where
  "update_loop i s [] = None"
| "update_loop i s (a # as) =
     (if alert_id a = i then Some (a\<lparr>alert_status := s\<rparr>, a\<lparr>alert_status := s\<rparr> # as)
      else (case update_loop i s as of
              None \<Rightarrow> None
            | Some (b, bs) \<Rightarrow> Some (b, a # bs)))"

text \<open>
  \<open>new_status not in ['active', 'resolved', 'investigating']\<close>; \<open>None\<close> is the value of
  \<open>data.get('status')\<close> when the key is absent.
\<close>

definition invalid_status :: "string option \<Rightarrow> bool" where
  "invalid_status new_status =
     (case new_status of
        None \<Rightarrow> True
      | Some s \<Rightarrow> s \<notin> set [''active'', ''resolved'', ''investigating''])"

definition update_alert_status :: "nat \<Rightarrow> string option \<Rightarrow> alert list \<Rightarrow> (failure + alert) \<times> alert list" where
  "update_alert_status i new_status as =
     (if invalid_status new_status then (Inl (Failure 400 ''Invalid status''), as)
      else
        (case update_loop i (get_or new_status []) as of
           Some (b, bs) \<Rightarrow> (Inr b, bs)
         | None \<Rightarrow> (Inl (Failure 404 ''Alert not found''), as)))"

text \<open>
  The endpoint: \<open>data\<close> is what \<open>request.get_json()\<close> returns, \<open>None\<close> or the dictionary,
  of which only the key \<open>status\<close> is read. With no dictionary \<open>data.get\<close> raises, and the
  \<open>except\<close> clause answers 500.
\<close>

definition update_alert :: "nat \<Rightarrow> string option option \<Rightarrow> system \<Rightarrow> (failure + alert) \<times> system" where
  "update_alert i data st =
     (case data of
        None \<Rightarrow> (Inl (Failure 500 ''Internal server error''), st)
      | Some new_status \<Rightarrow>
          (case update_alert_status i new_status (alerts st) of
             (r, as) \<Rightarrow> (r, st\<lparr>alerts := as\<rparr>)))"

section \<open>The cache and the endpoints that use it\<close>

text \<open>
  Modelled from the spec: glob-style matching of a key against a pattern, of which the
  spec fixes that \<open>*\<close> matches every key. \<open>*\<close> stands for any run of characters and
  \<open>?\<close> for one character.
\<close>

fun glob_match :: "string \<Rightarrow> string \<Rightarrow> bool" where
  "glob_match [] [] = True"
| "glob_match [] (c # cs) = False"
| "glob_match (p # ps) [] = (p = CHR ''*'' \<and> glob_match ps [])"
| "glob_match (p # ps) (c # cs) =
     (if p = CHR ''*'' then glob_match ps (c # cs) \<or> glob_match (p # ps) cs
      else if p = CHR ''?'' then glob_match ps cs
      else p = c \<and> glob_match ps cs)"

text \<open>Modelled from the spec: the key under which the aggregate statistics are cached.\<close>

definition network_stats_key :: string where
  "network_stats_key = ''network_stats''"

text \<open>
  Modelled from the spec: \<open>cache_manager.get_network_stats\<close>, a read that is a miss when
  the backend is unreachable or holds no statistics.
\<close>

definition get_network_stats :: "cache_backend \<Rightarrow> stats option" where
  "get_network_stats c =
     (if reachable c then
        (case map_of (entries c) network_stats_key of
           Some (CachedStats s) \<Rightarrow> Some s
         | _ \<Rightarrow> None)
      else None)"

text \<open>
  Modelled from the spec: \<open>cache_manager.cache_network_stats\<close>, a write that replaces the
  entry and is a no-op when the backend is unreachable.
\<close>

definition cache_network_stats :: "stats \<Rightarrow> cache_backend \<Rightarrow> cache_backend" where
  "cache_network_stats s c =
     (if reachable c
      then c\<lparr>entries := (network_stats_key, CachedStats s) # filter (\<lambda>kv. fst kv \<noteq> network_stats_key) (entries c)\<rparr>
      else c)"

text \<open>
  Modelled from the spec: \<open>cache_manager.clear_cache\<close> removes every entry whose key
  matches the pattern and returns success, or returns failure when the backend is
  unreachable.
\<close>

definition cache_clear :: "string \<Rightarrow> cache_backend \<Rightarrow> bool \<times> cache_backend" where
  "cache_clear pat c =
     (if reachable c
      then (True, c\<lparr>entries := filter (\<lambda>kv. \<not> glob_match pat (fst kv)) (entries c)\<rparr>)
      else (False, c))"

text \<open>
  \<open>served_from\<close> is not part of the JSON body: it records which branch of
  \<open>network_status\<close> supplied \<open>stats\<close>.
\<close>

datatype source = FromCache | FromOrigin

record status_response =
  response_status :: string
  response_stats :: stats
  active_alerts :: nat
  response_last_updated :: datetime
  served_from :: source

definition network_status :: "datetime \<Rightarrow> system \<Rightarrow> status_response \<times> system" where
  "network_status now st =
     (case get_network_stats (cache st) of
        Some cached_stats \<Rightarrow>
          (\<lparr>response_status = ''operational'', response_stats = cached_stats,
            active_alerts = length (filter is_active (alerts st)),
            response_last_updated = now, served_from = FromCache\<rparr>, st)
      | None \<Rightarrow>
          (\<lparr>response_status = ''operational'', response_stats = network_stats st,
            active_alerts = length (filter is_active (alerts st)),
            response_last_updated = now, served_from = FromOrigin\<rparr>,
           st\<lparr>cache := cache_network_stats (network_stats st) (cache st)\<rparr>))"

text \<open>
  The endpoint \<open>POST /api/cache/clear\<close>; \<open>pattern_arg\<close> is the key \<open>pattern\<close> of the
  request body, \<open>None\<close> when there is no body or no such key.
\<close>

record clear_response =
  success :: bool
  pattern_used :: string

definition clear_cache :: "string option \<Rightarrow> system \<Rightarrow> clear_response \<times> system" where
  "clear_cache pattern_arg st =
     (let p = get_or pattern_arg ''*''
      in case cache_clear p (cache st) of
           (ok, c) \<Rightarrow> (\<lparr>success = ok, pattern_used = p\<rparr>, st\<lparr>cache := c\<rparr>))"

section \<open>background_monitor\<close>

text \<open>The \<open>for\<close> loop over the alerts, with \<open>cutoff_time\<close> computed before it.\<close>

fun stale_loop :: "datetime \<Rightarrow> alert list \<Rightarrow> alert list" where
  "stale_loop cutoff_time [] = []"
| "stale_loop cutoff_time (a # as) =
     (if alert_status a = ''active''
      then (if alert_timestamp a < cutoff_time then a\<lparr>alert_status := ''stale''\<rparr> else a)
      else a) # stale_loop cutoff_time as"

text \<open>\<open>timedelta(hours=24)\<close> in microseconds.\<close>

definition ttl :: int where
  "ttl = 24 * 3600 * 1000000"

definition sweep_stale :: "datetime \<Rightarrow> alert list \<Rightarrow> alert list" where
  "sweep_stale now as = stale_loop (now - ttl) as"

text \<open>
  One pass of the body of \<open>while True\<close>, between two sleeps: \<open>t1\<close> and \<open>t2\<close> are the two
  clock readings. The loop itself never returns; it repeats this pass every minute.
\<close>

definition background_monitor_pass :: "datetime \<Rightarrow> datetime \<Rightarrow> system \<Rightarrow> system" where
  "background_monitor_pass t1 t2 st =
     (let stats' = (network_stats st)\<lparr>last_updated := t1\<rparr>;
          st1 = st\<lparr>network_stats := stats', cache := cache_network_stats stats' (cache st)\<rparr>
      in st1\<lparr>alerts := sweep_stale t2 (alerts st1)\<rparr>)"

section \<open>Concrete environments and states\<close>

text \<open>
  An environment with no known threat in which both collaborator calls succeed, and the
  variants in which the publish call reports failure or raises.
\<close>

definition quiet_env :: env where
  "quiet_env =
     \<lparr>check_threat_indicator = (\<lambda>ip. False),
      create_event_outcome = Succeeds,
      publish_event_outcome = Succeeds\<rparr>"

definition failing_env :: env where
  "failing_env = quiet_env\<lparr>create_event_outcome := Fails, publish_event_outcome := Fails\<rparr>"

definition raising_env :: env where
  "raising_env = quiet_env\<lparr>publish_event_outcome := Raises\<rparr>"

text \<open>
  The state after start-up with no \<open>DATABASE_URL\<close> (both database collaborators are
  \<open>None\<close>), and the one with a database that holds no record yet.
\<close>

definition fresh_system :: system where
  "fresh_system =
     \<lparr>alerts = [],
      network_stats = \<lparr>total_connections = 0, suspicious_connections = 0,
                       blocked_attempts = 0, last_updated = 0\<rparr>,
      network_analytics = None,
      security_event = None,
      published = [],
      cache = \<lparr>reachable = True, entries = []\<rparr>\<rparr>"

definition db_system :: system where
  "db_system = fresh_system\<lparr>network_analytics := Some [], security_event := Some []\<rparr>"

text \<open>An observation with one triggered rule (score 30).\<close>

definition low_traffic :: traffic_data where
  "low_traffic = empty_traffic\<lparr>connection_count := Some 1500\<rparr>"

text \<open>An alert that the sweep has marked stale, and an active one created at time 0.\<close>

definition stale_alert :: alert where
  "stale_alert =
     \<lparr>alert_id = 1, alert_timestamp = 0, alert_severity = ''medium'',
      alert_type = ''traffic_analysis'', alert_description = [],
      alert_source_ip = ''unknown'', alert_destination_ip = ''unknown'',
      alert_status = ''stale''\<rparr>"

definition active_alert :: alert where
  "active_alert = stale_alert\<lparr>alert_id := 2, alert_status := ''active''\<rparr>"

section \<open>Predicates of the claims\<close>

text \<open>
  Alert creation lets an exception through: \<open>create_event\<close> is called only when a
  database is configured, \<open>publish_event\<close> always.
\<close>

definition alert_creation_raises :: "env \<Rightarrow> system \<Rightarrow> bool" where
  "alert_creation_raises e st \<longleftrightarrow>
     (security_event st \<noteq> None \<and> create_event_outcome e = Raises) \<or> publish_event_outcome e = Raises"

text \<open>
  No alert has become stale: every alert of \<open>before\<close> is still at its position in
  \<open>after\<close> and is stale there only if it was stale before, and the alerts added behind
  are not stale.
\<close>

definition no_new_stale :: "alert list \<Rightarrow> alert list \<Rightarrow> bool" where
  "no_new_stale before after \<longleftrightarrow>
     list_all2 (\<lambda>a b. alert_status b = ''stale'' \<longrightarrow> alert_status a = ''stale'')
       before (take (length before) after) \<and>
     list_all (\<lambda>b. alert_status b \<noteq> ''stale'') (drop (length before) after)"

text \<open>Every stale alert of \<open>before\<close> is unchanged, at its position, in \<open>after\<close>.\<close>

definition stale_untouched :: "alert list \<Rightarrow> alert list \<Rightarrow> bool" where
  "stale_untouched before after \<longleftrightarrow>
     list_all2 (\<lambda>a b. alert_status a = ''stale'' \<longrightarrow> b = a) before (take (length before) after)"

text \<open>The sweep as the specification words it, for one alert.\<close>

definition expired :: "datetime \<Rightarrow> alert \<Rightarrow> bool" where
  "expired now a \<longleftrightarrow> alert_status a = ''active'' \<and> now - alert_timestamp a > ttl"

section \<open>Properties of analyze_traffic\<close>

lemma analyze_traffic_score: "risk_score (fst (analyze_traffic e now td st)) = rule_score e td"
  by (simp add: analyze_traffic_def Let_def add_finding_def rule_score_def known_threat_rule_def
      volume_rule_def auth_failure_rule_def port_anomaly_rule_def get_or_def
      split: option.split)

lemma analyze_traffic_labels: "threats_detected (fst (analyze_traffic e now td st)) = rule_labels e td"
  by (simp add: analyze_traffic_def Let_def add_finding_def rule_labels_def known_threat_rule_def
      volume_rule_def auth_failure_rule_def port_anomaly_rule_def get_or_def
      split: option.split)

lemma analyze_traffic_recommendations:
  "recommendations (fst (analyze_traffic e now td st)) = rule_recommendations e td"
  by (simp add: analyze_traffic_def Let_def add_finding_def rule_recommendations_def
      known_threat_rule_def volume_rule_def auth_failure_rule_def port_anomaly_rule_def get_or_def
      split: option.split)

lemma analyze_traffic_timestamp: "timestamp (fst (analyze_traffic e now td st)) = now"
  by (simp add: analyze_traffic_def Let_def add_finding_def split: option.split)

lemma rule_score_example: "rule_score e example_traffic = 80"
  by (simp add: rule_score_def known_threat_rule_def volume_rule_def auth_failure_rule_def
      port_anomaly_rule_def example_traffic_def empty_traffic_def)

lemma rule_labels_example:
  "rule_labels e example_traffic = [''High connection volume'', ''Multiple failed authentication attempts'']"
  by (simp add: rule_labels_def known_threat_rule_def volume_rule_def auth_failure_rule_def
      port_anomaly_rule_def example_traffic_def empty_traffic_def)

lemma rule_recommendations_example: "length (rule_recommendations e example_traffic) = 2"
  by (simp add: rule_recommendations_def known_threat_rule_def volume_rule_def auth_failure_rule_def
      port_anomaly_rule_def example_traffic_def empty_traffic_def)

lemma analyze_traffic_empty:
  "fst (analyze_traffic e now empty_traffic st) =
     \<lparr>timestamp = now, risk_score = 0, threats_detected = [], recommendations = []\<rparr>"
  by (simp add: analyze_traffic_def Let_def empty_traffic_def get_or_def split: option.split)

lemma analyze_traffic_state:
  "snd (analyze_traffic e now td st) =
     st\<lparr>network_analytics :=
          map_option (\<lambda>ms. ms @ [traffic_metric td (fst (analyze_traffic e now td st))])
            (network_analytics st)\<rparr>"
  by (simp add: analyze_traffic_def Let_def split: option.split)

text \<open>
  C1: for every observation, with any of its fields absent, \<open>analyze_traffic\<close> returns an
  analysis whose score is the sum of the weights of exactly the triggered rules (known
  threat 80, volume 30, authentication failures 50, port anomaly 20), with one label and
  one recommendation per triggered rule in the order of the rules; absent fields trigger
  nothing, and the observation with 1500 connections and 15 failed authentications gets
  the score 80, two labels and two recommendations.
\<close>

theorem analyze_traffic_rule_additivity:
  "risk_score (fst (analyze_traffic e now td st)) = rule_score e td \<and>
   threats_detected (fst (analyze_traffic e now td st)) = rule_labels e td \<and>
   recommendations (fst (analyze_traffic e now td st)) = rule_recommendations e td \<and>
   fst (analyze_traffic e now empty_traffic st) =
     \<lparr>timestamp = now, risk_score = 0, threats_detected = [], recommendations = []\<rparr> \<and>
   risk_score (fst (analyze_traffic e now example_traffic st)) = 80 \<and>
   length (threats_detected (fst (analyze_traffic e now example_traffic st))) = 2 \<and>
   length (recommendations (fst (analyze_traffic e now example_traffic st))) = 2"
  by (simp add: analyze_traffic_score analyze_traffic_labels analyze_traffic_recommendations
      analyze_traffic_empty rule_score_example rule_labels_example rule_recommendations_example)

end
